theory Spec2Isabelle
  imports Main
begin

section \<open>The keymaps module of src/keymaps/index.js\<close>

text \<open>
  The module keeps a dictionary \<open>keymaps\<close> from identifiers to bindings, hands every chord
  string to the global key listener \<open>keymaster\<close> together with a dispatch callback, and
  reports on the editor model \<open>em\<close> through \<open>em.trigger\<close>.

  Conventions of the embedding:
  \<^item> a JavaScript string is a \<open>string\<close>; the character U+2318 of the default chords is
    written as the three bytes of its UTF-8 encoding (the module never looks inside a
    chord string);
  \<^item> the object \<open>keymaps\<close> is the map of its own properties, read through \<open>lookup\<close>,
    which also answers the properties that \<open>{}\<close> inherits from \<open>Object.prototype\<close>;
  \<^item> functions, command objects, the editor and key events are opaque to the module and
    are numbered; invoking a function or the \<open>run\<close> method of a command object is
    recorded, and the invocation either returns or throws, as the field \<open>throws\<close> of the
    state says; a handler is taken not to call back into the module;
  \<^item> every call that leaves the module (bind, unbind, trigger, handler invocation) is
    appended to one \<open>trace\<close>, in the order in which the calls are made, also when the
    call throws;
  \<^item> an exception is a value; the state that the throwing call leaves behind is
    returned with it.
\<close>

subsection \<open>Values\<close>

type_synonym editor = nat
type_synonym key_event = nat

text \<open>What a \<open>handler\<close> variable may hold: a string (a command id), a function, an
  object with a \<open>run\<close> method, or \<open>undefined\<close>.\<close>

datatype handler = HString string | HFunction nat | HObject nat | HUndefined

text \<open>The object literal \<open>{ id, keys, handler }\<close> (line 103).\<close>

record keymap =
  km_id :: string
  km_keys :: string
  km_handler :: handler

text \<open>An entry \<open>{ keys, handler }\<close> of \<open>defaults\<close> (lines 20-35).\<close>

record keydef =
  kd_keys :: string
  kd_handler :: handler

text \<open>The editor model; \<open>em.getEditor()\<close> is all the module reads of it.\<close>

datatype em = Em (getEditor: editor)

text \<open>The second argument of a dispatch callback; the module reads \<open>h.shortcut\<close>.\<close>

record hinfo =
  shortcut :: string

datatype arg = AKeymap keymap | AString string | AEvent key_event

datatype action =
    Bind string
  | Unbind string
  | Unbind_non_string
  | Trigger string "arg list"
  | Run nat editor
  | Call nat editor

text \<open>A \<open>TypeError\<close> of the runtime, or whatever a handler throws.\<close>

datatype error = TypeError | Thrown

text \<open>What \<open>keymaps[id]\<close> evaluates to: \<open>undefined\<close>, a stored binding, or the value of the
  property of that name inherited from \<open>Object.prototype\<close> (a function, or the prototype
  itself for \<open>__proto__\<close>): truthy, and not a binding.\<close>

datatype entry = Undefined | Binding keymap | Inherited string

text \<open>The arrow function of lines 107-114 closes over \<open>id\<close>, \<open>editor\<close> and the parameter
  \<open>handler\<close> of its own call of \<open>add\<close>; the callback assigns to \<open>handler\<close>, so the
  closure carries the current value of that variable.\<close>

record closure =
  cl_id :: string
  cl_handler :: handler
  cl_editor :: editor

record config =
  defaults :: "(string \<times> keydef) list"
  cfg_em :: "em option"

text \<open>The argument of \<open>init\<close>: each recognised key may be missing.\<close>

record opts =
  opts_defaults :: "(string \<times> keydef) list option"
  opts_em :: "em option"

record state =
  config :: "config option"
  em :: "em option"
  keymaps :: "string \<rightharpoonup> keymap"
  handlers :: "(string \<times> closure) list"
  commands :: "string \<rightharpoonup> handler"
  throws :: "handler \<Rightarrow> bool"
  trace :: "action list"

subsection \<open>Collaborators\<close>

text \<open>Modelled from the spec: the listening engine \<open>keymaster\<close> is required from a
  package outside the repository. \<open>bind(chordString, callback)\<close> registers a callback
  under the chord string.\<close>

definition keymaster :: "string \<Rightarrow> closure \<Rightarrow> state \<Rightarrow> state" where
  "keymaster ks cb s = s\<lparr>handlers := handlers s @ [(ks, cb)], trace := trace s @ [Bind ks]\<rparr>"

text \<open>Modelled from the spec: \<open>unbind(chordString)\<close> removes all callbacks for that chord
  string.\<close>

definition keymaster_unbind :: "string \<Rightarrow> state \<Rightarrow> state" where
  "keymaster_unbind ks s =
     s\<lparr>handlers := filter (\<lambda>p. fst p \<noteq> ks) (handlers s), trace := trace s @ [Unbind ks]\<rparr>"

text \<open>Modelled from the spec: \<open>unbind\<close> is given for chord strings. Line 159 passes
  \<open>keymap.keys\<close>, which is not a string when \<open>keymap\<close> is an inherited property
  (\<open>Object.keys\<close> for \<open>constructor\<close>, \<open>undefined\<close> for the others); the package calls a
  string method of its argument first, so the call throws a \<open>TypeError\<close> and the listener
  stays as it is.\<close>

definition keymaster_unbind_non_string :: "state \<Rightarrow> state" where
  "keymaster_unbind_non_string s = s\<lparr>trace := trace s @ [Unbind_non_string]\<rparr>"

text \<open>Modelled from the spec: the event bus \<open>em.trigger(eventName, ...args)\<close> is fire and
  forget.\<close>

definition trigger :: "string \<Rightarrow> arg list \<Rightarrow> state \<Rightarrow> state" where
  "trigger name args s = s\<lparr>trace := trace s @ [Trigger name args]\<rparr>"

text \<open>Modelled from the spec: the command registry \<open>em.get('Commands')\<close> exposes
  \<open>get(commandId)\<close>, a runnable or absent.\<close>

definition cmd_get :: "string \<Rightarrow> state \<Rightarrow> handler" where
  "cmd_get c s = (case commands s c of None \<Rightarrow> HUndefined | Some v \<Rightarrow> v)"

text \<open>Modelled from the spec: the host registers or replaces a command in the command
  registry between calls of the module.\<close>

definition cmd_add :: "string \<Rightarrow> handler \<Rightarrow> state \<Rightarrow> state" where
  "cmd_add c v s = s\<lparr>commands := (commands s)(c \<mapsto> v)\<rparr>"

subsection \<open>The module\<close>

text \<open>The character U+2318 (place of interest sign), in UTF-8.\<close>

definition cmd_sign :: string where
  "cmd_sign = [CHR 0xE2, CHR 0x8C, CHR 0x98]"

text \<open>Lines 18-37; the list keeps the order in which the literal names its keys, the
  order in which \<open>for ... in\<close> visits them.\<close>

definition configDef :: config where
  "configDef = \<lparr>defaults =
     [(''core:undo'', \<lparr>kd_keys = cmd_sign @ ''+z, ctrl+z'', kd_handler = HString ''core:undo''\<rparr>),
      (''core:redo'', \<lparr>kd_keys = cmd_sign @ ''+shift+z, ctrl+shift+z'', kd_handler = HString ''core:redo''\<rparr>),
      (''core:copy'', \<lparr>kd_keys = cmd_sign @ ''+c, ctrl+c'', kd_handler = HString ''core:copy''\<rparr>),
      (''core:paste'', \<lparr>kd_keys = cmd_sign @ ''+v, ctrl+v'', kd_handler = HString ''core:paste''\<rparr>)],
     cfg_em = None\<rparr>"

text \<open>The names of the properties of \<open>Object.prototype\<close> (ECMAScript, with Annex B), which
  the object literal \<open>{}\<close> of line 17 inherits.\<close>

definition object_prototype :: "string list" where
  "object_prototype =
     [''constructor'', ''__defineGetter__'', ''__defineSetter__'', ''hasOwnProperty'',
      ''__lookupGetter__'', ''__lookupSetter__'', ''isPrototypeOf'', ''propertyIsEnumerable'',
      ''toString'', ''valueOf'', ''__proto__'', ''toLocaleString'']"

text \<open>\<open>keymaps[id]\<close> (lines 104 and 129): an own property, else an inherited one, else
  \<open>undefined\<close>. \<open>__proto__\<close> is an accessor of the prototype: assigning or deleting by that
  name makes no own property, and reading it answers the prototype.\<close>

definition lookup :: "(string \<rightharpoonup> keymap) \<Rightarrow> string \<Rightarrow> entry" where
  "lookup m i =
     (if i = ''__proto__'' then Inherited i
      else case m i of
             Some km \<Rightarrow> Binding km
           | None \<Rightarrow> if i \<in> set object_prototype then Inherited i else Undefined)"

text \<open>The state right after \<open>module.exports()\<close> (lines 14-17): nothing configured, no own
  property in \<open>keymaps\<close>; the listener, the command registry and the behaviour of the
  handlers are whatever the host has.\<close>

definition new_module ::
    "(string \<times> closure) list \<Rightarrow> (string \<rightharpoonup> handler) \<Rightarrow> (handler \<Rightarrow> bool) \<Rightarrow> state" where
  "new_module hs cs th =
     \<lparr>config = None, em = None, keymaps = Map.empty, handlers = hs, commands = cs,
      throws = th, trace = []\<rparr>"

text \<open>Lines 51-53.\<close>

definition getConfig :: "state \<Rightarrow> config option" where
  "getConfig s = config s"

text \<open>Lines 61-66: \<open>{ ...configDef, ...opts }\<close>, a key of \<open>opts\<close> wins.\<close>

definition init :: "opts \<Rightarrow> state \<Rightarrow> state" where
  "init os s =
     (let c = \<lparr>defaults = (case opts_defaults os of None \<Rightarrow> defaults configDef | Some d \<Rightarrow> d),
               cfg_em = (case opts_em os of None \<Rightarrow> cfg_em configDef | Some m \<Rightarrow> Some m)\<rparr>
      in s\<lparr>config := Some c, em := cfg_em c\<rparr>)"

text \<open>Lines 128-130.\<close>

definition get :: "string \<Rightarrow> state \<Rightarrow> entry" where
  "get i s = lookup (keymaps s) i"

text \<open>Lines 140-142: the object itself, that is its own properties.\<close>

definition getAll :: "state \<Rightarrow> (string \<rightharpoonup> keymap)" where
  "getAll s = keymaps s"

text \<open>Lines 153-163. \<open>if (keymap)\<close> is entered for a binding and for an inherited
  property; for the latter \<open>delete\<close> finds no own property and \<open>keymaster.unbind\<close>
  throws. \<open>em && em.trigger(...)\<close> skips the notification when \<open>this.em\<close> is not set.\<close>

definition remove :: "string \<Rightarrow> state \<Rightarrow> (error + keymap option) \<times> state" where
  "remove i s =
     (case get i s of
        Undefined \<Rightarrow> (Inr None, s)
      | Binding km \<Rightarrow>
          (let s1 = s\<lparr>keymaps := (keymaps s)(i := None)\<rparr>;
               s2 = keymaster_unbind (km_keys km) s1;
               s3 = (case em s2 of None \<Rightarrow> s2
                     | Some m \<Rightarrow> trigger ''keymap:remove'' [AKeymap km] s2)
           in (Inr (Some km), s3))
      | Inherited n \<Rightarrow>
          (let s1 = s\<lparr>keymaps := (keymaps s)(i := None)\<rparr>;
               s2 = keymaster_unbind_non_string s1
           in (Inl TypeError, s2)))"

text \<open>Lines 99-117. \<open>em.get('Commands')\<close> on an unset \<open>this.em\<close> throws before anything
  else happens; \<open>pk && this.remove(id)\<close> calls \<open>remove\<close> for every truthy \<open>keymaps[id]\<close>,
  and an exception of \<open>remove\<close> ends the call.\<close>

definition add :: "string \<Rightarrow> string \<Rightarrow> handler \<Rightarrow> state \<Rightarrow> (error + keymap) \<times> state" where
  "add i ks h s =
     (case em s of
        None \<Rightarrow> (Inl TypeError, s)
      | Some m \<Rightarrow>
          (let editor = getEditor m;
               km = \<lparr>km_id = i, km_keys = ks, km_handler = h\<rparr>
           in case (case lookup (keymaps s) i of
                      Undefined \<Rightarrow> (Inr None, s)
                    | pk \<Rightarrow> remove i s) of
                (Inl err, s1) \<Rightarrow> (Inl err, s1)
              | (Inr r, s1) \<Rightarrow>
                  (let s2 = s1\<lparr>keymaps := (keymaps s1)(i \<mapsto> km)\<rparr>;
                       s3 = keymaster ks \<lparr>cl_id = i, cl_handler = h, cl_editor = editor\<rparr> s2;
                       s4 = trigger ''keymap:add'' [AKeymap km] s3
                   in (Inr km, s4))))"

text \<open>Line 110: \<open>typeof handler == 'object' ? handler.run(editor) : handler(editor)\<close>, the
  call that is made. Calling anything but a function throws before any call.\<close>

fun run_action :: "handler \<Rightarrow> editor \<Rightarrow> action option" where
  "run_action (HObject ob) ed = Some (Run ob ed)"
| "run_action (HFunction f) ed = Some (Call f ed)"
| "run_action (HString v) ed = None"
| "run_action HUndefined ed = None"

text \<open>Line 109: \<open>isString(handler) ? cmd.get(handler) : handler\<close>.\<close>

fun resolve :: "handler \<Rightarrow> state \<Rightarrow> handler" where
  "resolve (HString c) s = cmd_get c s"
| "resolve h s = h"

text \<open>Lines 107-114, the dispatch callback. The result of line 109 is assigned to the
  captured variable \<open>handler\<close>, so the closure is returned with its new value, also when
  line 110 throws. There is no \<open>try\<close>: when the invoked handler throws, lines 111-113 are
  not reached.\<close>

definition callback :: "closure \<Rightarrow> key_event \<Rightarrow> hinfo \<Rightarrow> state \<Rightarrow> error option \<times> closure \<times> state" where
  "callback cl e h s =
     (let hv = resolve (cl_handler cl) s;
          cl' = cl\<lparr>cl_handler := hv\<rparr>
      in case run_action hv (cl_editor cl) of
           None \<Rightarrow> (Some TypeError, cl', s)
         | Some a \<Rightarrow>
             (let s1 = s\<lparr>trace := trace s @ [a]\<rparr>
              in if throws s hv then (Some Thrown, cl', s1)
                 else
                   (let args = [AString (cl_id cl), AString (shortcut h), AEvent e];
                        s2 = trigger ''keymap:emit'' args s1;
                        s3 = trigger (''keymap:emit:'' @ cl_id cl) args s2
                    in (None, cl', s3))))"

text \<open>Modelled from the spec: on a key event that matches the chord string \<open>ks\<close> the
  listening engine invokes, synchronously and in the order of registration, the
  callbacks registered under \<open>ks\<close>; an exception of a callback ends the dispatch.\<close>

fun fire_list :: "(string \<times> closure) list \<Rightarrow> string \<Rightarrow> key_event \<Rightarrow> hinfo \<Rightarrow> state
    \<Rightarrow> error option \<times> (string \<times> closure) list \<times> state" where
  "fire_list [] ks e h s = (None, [], s)"
| "fire_list ((k, cl) # rest) ks e h s =
     (if k = ks then
        (case callback cl e h s of
           (Some err, cl', s') \<Rightarrow> (Some err, (k, cl') # rest, s')
         | (None, cl', s') \<Rightarrow>
             (case fire_list rest ks e h s' of
                (r, rest', s'') \<Rightarrow> (r, (k, cl') # rest', s'')))
      else
        (case fire_list rest ks e h s of
           (r, rest', s'') \<Rightarrow> (r, (k, cl) # rest', s'')))"

text \<open>Modelled from the spec: a key event for the chord string \<open>ks\<close>, dispatched over the
  callbacks on the listener; each closure stays on the listener with the value its
  callback left in \<open>handler\<close>.\<close>

definition fire :: "string \<Rightarrow> key_event \<Rightarrow> hinfo \<Rightarrow> state \<Rightarrow> error option \<times> state" where
  "fire ks e h s =
     (case fire_list (handlers s) ks e h s of
        (r, hs', s') \<Rightarrow> (r, s'\<lparr>handlers := hs'\<rparr>))"

text \<open>Lines 69-76: \<open>config.defaults\<close> throws when \<open>init\<close> has not run; an exception of
  \<open>add\<close> ends the loop.\<close>

fun add_each :: "(string \<times> keydef) list \<Rightarrow> state \<Rightarrow> error option \<times> state" where
  "add_each [] s = (None, s)"
| "add_each ((i, v) # rest) s =
     (case add i (kd_keys v) (kd_handler v) s of
        (Inl err, s') \<Rightarrow> (Some err, s')
      | (Inr km, s') \<Rightarrow> add_each rest s')"

definition onLoad :: "state \<Rightarrow> error option \<times> state" where
  "onLoad s =
     (case config s of
        None \<Rightarrow> (Some TypeError, s)
      | Some c \<Rightarrow> add_each (defaults c) s)"

subsection \<open>Observing a run\<close>

text \<open>What the event bus has received, in order: the \<open>trigger\<close> calls of a trace.\<close>

fun bus :: "action list \<Rightarrow> (string \<times> arg list) list" where
  "bus [] = []"
| "bus (Trigger n args # as) = (n, args) # bus as"
| "bus (a # as) = bus as"

text \<open>The payloads received under one event name.\<close>

definition payloads :: "string \<Rightarrow> action list \<Rightarrow> arg list list" where
  "payloads n as = map snd (filter (\<lambda>p. fst p = n) (bus as))"

text \<open>A finite sequence of \<open>add\<close> calls, each given as \<open>(id, keys, handler)\<close>; a caller
  that catches an exception of one call goes on with the state the call left.\<close>

fun add_seq :: "(string \<times> string \<times> handler) list \<Rightarrow> state \<Rightarrow> state" where
  "add_seq [] s = s"
| "add_seq ((i, ks, h) # calls) s = add_seq calls (snd (add i ks h s))"



text \<open>A module initialised by the host with an editor model and no other option, on a
  listener without callbacks and an empty command registry; no handler throws.\<close>

definition st0 :: state where
  "st0 = init \<lparr>opts_defaults = None, opts_em = Some (Em 0)\<rparr>
           (new_module [] Map.empty (\<lambda>h. False))"

text \<open>A fresh module after \<open>init\<close> with an editor model and no key of \<open>configDef\<close>
  overridden.\<close>

definition seeded ::
    "em \<Rightarrow> (string \<times> closure) list \<Rightarrow> (string \<rightharpoonup> handler) \<Rightarrow> (handler \<Rightarrow> bool) \<Rightarrow> state" where
  "seeded m hs cs th = init \<lparr>opts_defaults = None, opts_em = Some m\<rparr> (new_module hs cs th)"


section \<open>Properties\<close>

subsection \<open>What one call does\<close>

lemma bus_append: "bus (xs @ ys) = bus xs @ bus ys"
  by (induction xs rule: bus.induct) simp_all


lemma st0_simps:
  "em st0 = Some (Em 0)" "keymaps st0 = Map.empty" "handlers st0 = []" "trace st0 = []"
  "commands st0 = Map.empty" "throws st0 = (\<lambda>h. False)"
  by (simp_all add: st0_def init_def new_module_def configDef_def Let_def)

lemma st0_unfold:
  "st0 = \<lparr>config = Some \<lparr>defaults = defaults configDef, cfg_em = Some (Em 0)\<rparr>, em = Some (Em 0),
          keymaps = Map.empty, handlers = [], commands = Map.empty, throws = (\<lambda>h. False),
          trace = []\<rparr>"
  by (simp add: st0_def init_def new_module_def Let_def)

lemma proto_inherited: "''__proto__'' \<in> set object_prototype"
  by (simp add: object_prototype_def)


lemma plain_names:
  "''a'' \<notin> set object_prototype" "''b'' \<notin> set object_prototype"
  "''x'' \<notin> set object_prototype" "''y'' \<notin> set object_prototype"
  "''missing'' \<notin> set object_prototype" "''core:undo'' \<notin> set object_prototype"
  by (simp_all add: object_prototype_def)

lemma lookup_plain:
  "i \<notin> set object_prototype \<Longrightarrow>
   lookup m i = (case m i of None \<Rightarrow> Undefined | Some km \<Rightarrow> Binding km)"
  using proto_inherited by (auto simp: lookup_def split: option.splits)



lemma remove_present:
  "i \<notin> set object_prototype \<Longrightarrow> keymaps s i = Some km \<Longrightarrow>
   remove i s =
     (Inr (Some km),
      s\<lparr>keymaps := (keymaps s)(i := None),
        handlers := filter (\<lambda>p. fst p \<noteq> km_keys km) (handlers s),
        trace := trace s @ Unbind (km_keys km) #
          (case em s of None \<Rightarrow> [] | Some m \<Rightarrow> [Trigger ''keymap:remove'' [AKeymap km]])\<rparr>)"
  by (simp add: remove_def get_def lookup_plain keymaster_unbind_def trigger_def Let_def
      split: option.splits)



lemma add_no_em: "em s = None \<Longrightarrow> add i ks h s = (Inl TypeError, s)"
  by (simp add: add_def)

lemma add_fresh:
  "em s = Some m \<Longrightarrow> i \<notin> set object_prototype \<Longrightarrow> keymaps s i = None \<Longrightarrow>
   add i ks h s =
     (Inr \<lparr>km_id = i, km_keys = ks, km_handler = h\<rparr>,
      s\<lparr>keymaps := (keymaps s)(i \<mapsto> \<lparr>km_id = i, km_keys = ks, km_handler = h\<rparr>),
        handlers := handlers s @ [(ks, \<lparr>cl_id = i, cl_handler = h, cl_editor = getEditor m\<rparr>)],
        trace := trace s @
          [Bind ks,
           Trigger ''keymap:add'' [AKeymap \<lparr>km_id = i, km_keys = ks, km_handler = h\<rparr>]]\<rparr>)"
  by (simp add: add_def lookup_plain keymaster_def trigger_def Let_def)

lemma add_present:
  "em s = Some m \<Longrightarrow> i \<notin> set object_prototype \<Longrightarrow> keymaps s i = Some pk \<Longrightarrow>
   add i ks h s =
     (Inr \<lparr>km_id = i, km_keys = ks, km_handler = h\<rparr>,
      s\<lparr>keymaps := (keymaps s)(i \<mapsto> \<lparr>km_id = i, km_keys = ks, km_handler = h\<rparr>),
        handlers := filter (\<lambda>p. fst p \<noteq> km_keys pk) (handlers s)
                    @ [(ks, \<lparr>cl_id = i, cl_handler = h, cl_editor = getEditor m\<rparr>)],
        trace := trace s @
          [Unbind (km_keys pk), Trigger ''keymap:remove'' [AKeymap pk],
           Bind ks,
           Trigger ''keymap:add'' [AKeymap \<lparr>km_id = i, km_keys = ks, km_handler = h\<rparr>]]\<rparr>)"
  by (simp add: add_def lookup_plain remove_present keymaster_def trigger_def Let_def)





lemma add_handlers:
  "em s = Some m \<Longrightarrow> i \<notin> set object_prototype \<Longrightarrow>
   handlers (snd (add i ks h s)) =
     filter (\<lambda>p. case keymaps s i of None \<Rightarrow> True | Some pk \<Rightarrow> fst p \<noteq> km_keys pk) (handlers s)
     @ [(ks, \<lparr>cl_id = i, cl_handler = h, cl_editor = getEditor m\<rparr>)]"
  by (cases "keymaps s i") (simp_all add: add_fresh add_present)



lemmas run_defs = add_def remove_def get_def getAll_def lookup_def object_prototype_def
  keymaster_def keymaster_unbind_def keymaster_unbind_non_string_def trigger_def Let_def

subsection \<open>Removal\<close>




subsection \<open>Adding\<close>







subsection \<open>Sequences of additions\<close>

















subsection \<open>Start-up\<close>

lemma init_keeps:
  "keymaps (init os s) = keymaps s" "handlers (init os s) = handlers s"
  "trace (init os s) = trace s" "commands (init os s) = commands s"
  by (simp_all add: init_def Let_def)

lemma seeded_simps:
  "config (seeded m hs cs th) = Some \<lparr>defaults = defaults configDef, cfg_em = Some m\<rparr>"
  "em (seeded m hs cs th) = Some m" "keymaps (seeded m hs cs th) = Map.empty"
  "handlers (seeded m hs cs th) = hs" "trace (seeded m hs cs th) = []"
  "commands (seeded m hs cs th) = cs"
  by (simp_all add: seeded_def init_def new_module_def Let_def)

lemma onLoad_seeded:
  "onLoad (seeded m hs cs th) =
     (None, (seeded m hs cs th)
        \<lparr>keymaps :=
           [''core:undo'' \<mapsto> \<lparr>km_id = ''core:undo'', km_keys = cmd_sign @ ''+z, ctrl+z'',
                               km_handler = HString ''core:undo''\<rparr>,
            ''core:redo'' \<mapsto> \<lparr>km_id = ''core:redo'', km_keys = cmd_sign @ ''+shift+z, ctrl+shift+z'',
                               km_handler = HString ''core:redo''\<rparr>,
            ''core:copy'' \<mapsto> \<lparr>km_id = ''core:copy'', km_keys = cmd_sign @ ''+c, ctrl+c'',
                               km_handler = HString ''core:copy''\<rparr>,
            ''core:paste'' \<mapsto> \<lparr>km_id = ''core:paste'', km_keys = cmd_sign @ ''+v, ctrl+v'',
                               km_handler = HString ''core:paste''\<rparr>],
         handlers := hs @
           [(cmd_sign @ ''+z, ctrl+z'',
               \<lparr>cl_id = ''core:undo'', cl_handler = HString ''core:undo'', cl_editor = getEditor m\<rparr>),
            (cmd_sign @ ''+shift+z, ctrl+shift+z'',
               \<lparr>cl_id = ''core:redo'', cl_handler = HString ''core:redo'', cl_editor = getEditor m\<rparr>),
            (cmd_sign @ ''+c, ctrl+c'',
               \<lparr>cl_id = ''core:copy'', cl_handler = HString ''core:copy'', cl_editor = getEditor m\<rparr>),
            (cmd_sign @ ''+v, ctrl+v'',
               \<lparr>cl_id = ''core:paste'', cl_handler = HString ''core:paste'', cl_editor = getEditor m\<rparr>)],
         trace :=
           [Bind (cmd_sign @ ''+z, ctrl+z''),
            Trigger ''keymap:add'' [AKeymap \<lparr>km_id = ''core:undo'', km_keys = cmd_sign @ ''+z, ctrl+z'',
                               km_handler = HString ''core:undo''\<rparr>],
            Bind (cmd_sign @ ''+shift+z, ctrl+shift+z''),
            Trigger ''keymap:add'' [AKeymap \<lparr>km_id = ''core:redo'', km_keys = cmd_sign @ ''+shift+z, ctrl+shift+z'',
                               km_handler = HString ''core:redo''\<rparr>],
            Bind (cmd_sign @ ''+c, ctrl+c''),
            Trigger ''keymap:add'' [AKeymap \<lparr>km_id = ''core:copy'', km_keys = cmd_sign @ ''+c, ctrl+c'',
                               km_handler = HString ''core:copy''\<rparr>],
            Bind (cmd_sign @ ''+v, ctrl+v''),
            Trigger ''keymap:add'' [AKeymap \<lparr>km_id = ''core:paste'', km_keys = cmd_sign @ ''+v, ctrl+v'',
                               km_handler = HString ''core:paste''\<rparr>]]\<rparr>)"
  by (simp add: onLoad_def seeded_simps configDef_def add_def lookup_def object_prototype_def
      keymaster_def trigger_def Let_def)

text \<open>
  Claim C8. \<open>init\<close> changes neither the dictionary nor the listener nor the trace, and a
  fresh module has an empty dictionary after it. The load step then succeeds and is the
  sequence of \<open>add\<close> calls for the entries of \<open>defaults\<close> in their order: the dictionary
  holds the four default identifiers and no other, each with the chord string of the
  table and the handler string equal to its identifier, and the bus has received the
  four \<open>keymap:add\<close> in that order.
\<close>

theorem default_seeding:
  "getAll (init os s) = getAll s \<and> handlers (init os s) = handlers s \<and>
   trace (init os s) = trace s \<and>
   getAll (seeded m hs cs th) = Map.empty \<and>
   fst (onLoad (seeded m hs cs th)) = None \<and>
   snd (onLoad (seeded m hs cs th)) =
     add_seq (map (\<lambda>(i, v). (i, kd_keys v, kd_handler v)) (defaults configDef)) (seeded m hs cs th) \<and>
   dom (getAll (snd (onLoad (seeded m hs cs th)))) =
     {''core:undo'', ''core:redo'', ''core:copy'', ''core:paste''} \<and>
   get ''core:undo'' (snd (onLoad (seeded m hs cs th))) =
     Binding \<lparr>km_id = ''core:undo'', km_keys = cmd_sign @ ''+z, ctrl+z'',
           km_handler = HString ''core:undo''\<rparr> \<and>
   get ''core:redo'' (snd (onLoad (seeded m hs cs th))) =
     Binding \<lparr>km_id = ''core:redo'', km_keys = cmd_sign @ ''+shift+z, ctrl+shift+z'',
           km_handler = HString ''core:redo''\<rparr> \<and>
   get ''core:copy'' (snd (onLoad (seeded m hs cs th))) =
     Binding \<lparr>km_id = ''core:copy'', km_keys = cmd_sign @ ''+c, ctrl+c'',
           km_handler = HString ''core:copy''\<rparr> \<and>
   get ''core:paste'' (snd (onLoad (seeded m hs cs th))) =
     Binding \<lparr>km_id = ''core:paste'', km_keys = cmd_sign @ ''+v, ctrl+v'',
           km_handler = HString ''core:paste''\<rparr> \<and>
   bus (trace (snd (onLoad (seeded m hs cs th)))) =
     [(''keymap:add'', [AKeymap \<lparr>km_id = ''core:undo'', km_keys = cmd_sign @ ''+z, ctrl+z'',
           km_handler = HString ''core:undo''\<rparr>]),
      (''keymap:add'', [AKeymap \<lparr>km_id = ''core:redo'', km_keys = cmd_sign @ ''+shift+z, ctrl+shift+z'',
           km_handler = HString ''core:redo''\<rparr>]),
      (''keymap:add'', [AKeymap \<lparr>km_id = ''core:copy'', km_keys = cmd_sign @ ''+c, ctrl+c'',
           km_handler = HString ''core:copy''\<rparr>]),
      (''keymap:add'', [AKeymap \<lparr>km_id = ''core:paste'', km_keys = cmd_sign @ ''+v, ctrl+v'',
           km_handler = HString ''core:paste''\<rparr>])]"
proof -
  have a: "add_seq (map (\<lambda>(i, v). (i, kd_keys v, kd_handler v)) (defaults configDef)) (seeded m hs cs th)
      = snd (onLoad (seeded m hs cs th))"
    unfolding onLoad_seeded
    by (simp add: seeded_simps configDef_def add_def lookup_def object_prototype_def
        keymaster_def trigger_def Let_def)
  have d: "dom (getAll (snd (onLoad (seeded m hs cs th)))) =
     {''core:undo'', ''core:redo'', ''core:copy'', ''core:paste''}"
    unfolding onLoad_seeded by (simp add: getAll_def insert_commute)
  show ?thesis
    unfolding a d
    by (simp add: init_keeps getAll_def get_def lookup_def object_prototype_def seeded_simps
        onLoad_seeded)
qed

theorem default_seeding_witness:
  "fst (onLoad (seeded (Em 0) [] Map.empty (\<lambda>h. False))) = None \<and>
   get ''core:undo'' (snd (onLoad (seeded (Em 0) [] Map.empty (\<lambda>h. False)))) =
     Binding \<lparr>km_id = ''core:undo'', km_keys = cmd_sign @ ''+z, ctrl+z'',
           km_handler = HString ''core:undo''\<rparr>"
  using default_seeding [of _ _ "Em 0" "[]" Map.empty "\<lambda>h. False"]
  by blast

subsection \<open>Dispatch\<close>

lemma callback_runs:
  "run_action (resolve (cl_handler cl) s) (cl_editor cl) = Some a \<Longrightarrow>
   \<not> throws s (resolve (cl_handler cl) s) \<Longrightarrow>
   callback cl e h s =
     (None, cl\<lparr>cl_handler := resolve (cl_handler cl) s\<rparr>,
      s\<lparr>trace := trace s @
        [a,
         Trigger ''keymap:emit'' [AString (cl_id cl), AString (shortcut h), AEvent e],
         Trigger (''keymap:emit:'' @ cl_id cl) [AString (cl_id cl), AString (shortcut h), AEvent e]]\<rparr>)"
  by (simp add: callback_def trigger_def Let_def)

lemma callback_handler_throws:
  "run_action (resolve (cl_handler cl) s) (cl_editor cl) = Some a \<Longrightarrow>
   throws s (resolve (cl_handler cl) s) \<Longrightarrow>
   callback cl e h s =
     (Some Thrown, cl\<lparr>cl_handler := resolve (cl_handler cl) s\<rparr>, s\<lparr>trace := trace s @ [a]\<rparr>)"
  by (simp add: callback_def Let_def)

lemma callback_not_callable:
  "run_action (resolve (cl_handler cl) s) (cl_editor cl) = None \<Longrightarrow>
   callback cl e h s = (Some TypeError, cl\<lparr>cl_handler := resolve (cl_handler cl) s\<rparr>, s)"
  by (simp add: callback_def Let_def)




lemmas fire_defs = fire_def callback_def cmd_get_def cmd_add_def




text \<open>
  Claim C6, as amended. One invocation of the dispatch callback of a binding, in which
  the handler that the callback holds (looked up in the command registry when it is a
  string) is a function or a command object whose invocation returns, invokes that
  handler with the editor and then triggers \<open>keymap:emit\<close> once and \<open>keymap:emit:<id>\<close>
  once, both with the identifier, the matched shortcut and the key event. When the
  invocation throws, or the handler is not callable (line 110 raises a \<open>TypeError\<close>),
  lines 111-113 are not reached and nothing is triggered. The callback that \<open>add\<close>
  registers carries the identifier of the binding.
\<close>

theorem dispatch_fan_out:
  "((resolve (cl_handler cl) s = HObject ob \<and> a = Run ob (cl_editor cl) \<or>
     resolve (cl_handler cl) s = HFunction f \<and> a = Call f (cl_editor cl)) \<longrightarrow>
      (\<not> throws s (resolve (cl_handler cl) s) \<longrightarrow>
         fst (callback cl e h s) = None \<and>
         trace (snd (snd (callback cl e h s))) =
           trace s @
             [a,
              Trigger ''keymap:emit'' [AString (cl_id cl), AString (shortcut h), AEvent e],
              Trigger (''keymap:emit:'' @ cl_id cl) [AString (cl_id cl), AString (shortcut h), AEvent e]] \<and>
         payloads ''keymap:emit'' (trace (snd (snd (callback cl e h s)))) =
           payloads ''keymap:emit'' (trace s) @ [[AString (cl_id cl), AString (shortcut h), AEvent e]] \<and>
         payloads (''keymap:emit:'' @ cl_id cl) (trace (snd (snd (callback cl e h s)))) =
           payloads (''keymap:emit:'' @ cl_id cl) (trace s) @
             [[AString (cl_id cl), AString (shortcut h), AEvent e]]) \<and>
      (throws s (resolve (cl_handler cl) s) \<longrightarrow>
         fst (callback cl e h s) = Some Thrown \<and>
         trace (snd (snd (callback cl e h s))) = trace s @ [a])) \<and>
   ((resolve (cl_handler cl) s = HUndefined \<or> resolve (cl_handler cl) s = HString w) \<longrightarrow>
      fst (callback cl e h s) = Some TypeError \<and>
      snd (snd (callback cl e h s)) = s) \<and>
   (em t = Some m \<longrightarrow> i \<notin> set object_prototype \<longrightarrow>
      last (handlers (snd (add i ks hx t))) = (ks, \<lparr>cl_id = i, cl_handler = hx, cl_editor = getEditor m\<rparr>))"
proof -
  let ?args = "[AString (cl_id cl), AString (shortcut h), AEvent e]"
  let ?v = "resolve (cl_handler cl) s"
  let ?callable = "?v = HObject ob \<and> a = Run ob (cl_editor cl) \<or>
     ?v = HFunction f \<and> a = Call f (cl_editor cl)"
  have ok: "fst (callback cl e h s) = None \<and>
      trace (snd (snd (callback cl e h s))) =
        trace s @ [a, Trigger ''keymap:emit'' ?args, Trigger (''keymap:emit:'' @ cl_id cl) ?args] \<and>
      payloads ''keymap:emit'' (trace (snd (snd (callback cl e h s)))) =
        payloads ''keymap:emit'' (trace s) @ [?args] \<and>
      payloads (''keymap:emit:'' @ cl_id cl) (trace (snd (snd (callback cl e h s)))) =
        payloads (''keymap:emit:'' @ cl_id cl) (trace s) @ [?args]"
    if c: "?callable" and nt: "\<not> throws s ?v"
  proof -
    have r: "run_action ?v (cl_editor cl) = Some a" using c by auto
    have a: "bus [a] = []" using c by auto
    have b: "bus (trace (snd (snd (callback cl e h s)))) =
        bus (trace s) @ [(''keymap:emit'', ?args), (''keymap:emit:'' @ cl_id cl, ?args)]"
      using bus_append [of "trace s" "[a, Trigger ''keymap:emit'' ?args,
          Trigger (''keymap:emit:'' @ cl_id cl) ?args]"]
        bus_append [of "[a]" "[Trigger ''keymap:emit'' ?args,
          Trigger (''keymap:emit:'' @ cl_id cl) ?args]"] a
      by (simp add: callback_runs [OF r nt])
    show ?thesis
      unfolding payloads_def b by (simp add: callback_runs [OF r nt])
  qed
  have thr: "fst (callback cl e h s) = Some Thrown \<and>
      trace (snd (snd (callback cl e h s))) = trace s @ [a]"
    if c: "?callable" and t: "throws s ?v"
  proof -
    have r: "run_action ?v (cl_editor cl) = Some a" using c by auto
    show ?thesis by (simp add: callback_handler_throws [OF r t])
  qed
  have bad: "fst (callback cl e h s) = Some TypeError \<and> snd (snd (callback cl e h s)) = s"
    if "?v = HUndefined \<or> ?v = HString w"
  proof -
    have r: "run_action ?v (cl_editor cl) = None" using that by auto
    show ?thesis by (simp add: callback_not_callable [OF r])
  qed
  have inst: "last (handlers (snd (add i ks hx t)))
      = (ks, \<lparr>cl_id = i, cl_handler = hx, cl_editor = getEditor m\<rparr>)"
    if "em t = Some m" "i \<notin> set object_prototype"
    by (simp add: add_handlers [OF that])
  from ok thr bad inst show ?thesis by blast
qed

theorem dispatch_fan_out_witness:
  "callback \<lparr>cl_id = ''core:undo'', cl_handler = HFunction 5, cl_editor = 0\<rparr> 7 \<lparr>shortcut = ''ctrl+z''\<rparr> st0 =
     (None, \<lparr>cl_id = ''core:undo'', cl_handler = HFunction 5, cl_editor = 0\<rparr>,
      st0\<lparr>trace :=
        [Call 5 0,
         Trigger ''keymap:emit'' [AString ''core:undo'', AString ''ctrl+z'', AEvent 7],
         Trigger ''keymap:emit:core:undo'' [AString ''core:undo'', AString ''ctrl+z'', AEvent 7]]\<rparr>) \<and>
   throws (st0\<lparr>throws := (\<lambda>v. v = HObject 6)\<rparr>) (HObject 6) \<and>
   callback \<lparr>cl_id = ''core:undo'', cl_handler = HObject 6, cl_editor = 0\<rparr> 7 \<lparr>shortcut = ''ctrl+z''\<rparr>
       (st0\<lparr>throws := (\<lambda>v. v = HObject 6)\<rparr>) =
     (Some Thrown, \<lparr>cl_id = ''core:undo'', cl_handler = HObject 6, cl_editor = 0\<rparr>,
      st0\<lparr>throws := (\<lambda>v. v = HObject 6), trace := [Run 6 0]\<rparr>) \<and>
   resolve (HString ''core:undo'') st0 = HUndefined \<and>
   callback \<lparr>cl_id = ''core:undo'', cl_handler = HString ''core:undo'', cl_editor = 0\<rparr> 7 \<lparr>shortcut = ''ctrl+z''\<rparr> st0 =
     (Some TypeError, \<lparr>cl_id = ''core:undo'', cl_handler = HUndefined, cl_editor = 0\<rparr>, st0) \<and>
   em st0 = Some (Em 0) \<and> ''core:undo'' \<notin> set object_prototype \<and>
   last (handlers (snd (add ''core:undo'' ''ctrl+z'' (HFunction 5) st0)))
     = (''ctrl+z'', \<lparr>cl_id = ''core:undo'', cl_handler = HFunction 5, cl_editor = 0\<rparr>)"
  using dispatch_fan_out [of "\<lparr>cl_id = ''core:undo'', cl_handler = HFunction 5, cl_editor = 0\<rparr>"
      st0 0 "Call 5 0" 5 7 "\<lparr>shortcut = ''ctrl+z''\<rparr>" "[]" st0 "Em 0" "''core:undo''" "''ctrl+z''" "HFunction 5"]
    dispatch_fan_out [of "\<lparr>cl_id = ''core:undo'', cl_handler = HObject 6, cl_editor = 0\<rparr>"
      "st0\<lparr>throws := (\<lambda>v. v = HObject 6)\<rparr>" 6 "Run 6 0" 0 7 "\<lparr>shortcut = ''ctrl+z''\<rparr>" "[]"
      st0 "Em 0" "''core:undo''" "''ctrl+z''" "HFunction 5"]
    dispatch_fan_out [of "\<lparr>cl_id = ''core:undo'', cl_handler = HString ''core:undo'', cl_editor = 0\<rparr>"
      st0 0 "Call 5 0" 5 7 "\<lparr>shortcut = ''ctrl+z''\<rparr>" "[]" st0 "Em 0" "''core:undo''" "''ctrl+z''" "HFunction 5"]
  by (simp add: st0_simps plain_names fire_defs trigger_def Let_def)

text \<open>
  Claim C6 as stated fails for a binding whose handler names a command that is not
  registered: the binding is stored and subscribed, the firing raises a \<open>TypeError\<close>, and
  the bus has received neither \<open>keymap:emit\<close> nor \<open>keymap:emit:b\<close>.
\<close>

theorem unresolved_handler_emits_nothing:
  "get ''b'' (snd (add ''b'' ''ctrl+k'' (HString ''cmd:foo'') st0))
     = Binding \<lparr>km_id = ''b'', km_keys = ''ctrl+k'', km_handler = HString ''cmd:foo''\<rparr> \<and>
   handlers (snd (add ''b'' ''ctrl+k'' (HString ''cmd:foo'') st0))
     = [(''ctrl+k'', \<lparr>cl_id = ''b'', cl_handler = HString ''cmd:foo'', cl_editor = 0\<rparr>)] \<and>
   fst (fire ''ctrl+k'' 7 \<lparr>shortcut = ''ctrl+k''\<rparr> (snd (add ''b'' ''ctrl+k'' (HString ''cmd:foo'') st0)))
     = Some TypeError \<and>
   payloads ''keymap:emit''
     (trace (snd (fire ''ctrl+k'' 7 \<lparr>shortcut = ''ctrl+k''\<rparr>
        (snd (add ''b'' ''ctrl+k'' (HString ''cmd:foo'') st0))))) = [] \<and>
   payloads ''keymap:emit:b''
     (trace (snd (fire ''ctrl+k'' 7 \<lparr>shortcut = ''ctrl+k''\<rparr>
        (snd (add ''b'' ''ctrl+k'' (HString ''cmd:foo'') st0))))) = []"
  by (simp add: add_fresh [OF st0_simps(1) plain_names(2)] st0_simps get_def lookup_plain
      plain_names fire_defs payloads_def)

text \<open>
  Claim C3. Line 109 assigns the looked-up command to the captured variable \<open>handler\<close>,
  so from the second firing on \<open>isString(handler)\<close> is false and the command registry is
  not consulted. Here \<open>cmd:foo\<close> is object 1 at the first firing and is replaced by
  object 2 before the second; the stored binding still names \<open>cmd:foo\<close>, the registry
  answers object 2, and the second firing runs object 1.
\<close>

theorem replaced_command_not_picked_up:
  "cmd_get ''cmd:foo''
     (cmd_add ''cmd:foo'' (HObject 2)
       (snd (fire ''ctrl+k'' 7 \<lparr>shortcut = ''ctrl+k''\<rparr>
         (snd (add ''b'' ''ctrl+k'' (HString ''cmd:foo'')
           (cmd_add ''cmd:foo'' (HObject 1) st0)))))) = HObject 2 \<and>
   get ''b''
     (cmd_add ''cmd:foo'' (HObject 2)
       (snd (fire ''ctrl+k'' 7 \<lparr>shortcut = ''ctrl+k''\<rparr>
         (snd (add ''b'' ''ctrl+k'' (HString ''cmd:foo'')
           (cmd_add ''cmd:foo'' (HObject 1) st0))))))
     = Binding \<lparr>km_id = ''b'', km_keys = ''ctrl+k'', km_handler = HString ''cmd:foo''\<rparr> \<and>
   trace (snd (fire ''ctrl+k'' 8 \<lparr>shortcut = ''ctrl+k''\<rparr>
     (cmd_add ''cmd:foo'' (HObject 2)
       (snd (fire ''ctrl+k'' 7 \<lparr>shortcut = ''ctrl+k''\<rparr>
         (snd (add ''b'' ''ctrl+k'' (HString ''cmd:foo'')
           (cmd_add ''cmd:foo'' (HObject 1) st0)))))))) =
     [Bind ''ctrl+k'',
      Trigger ''keymap:add'' [AKeymap \<lparr>km_id = ''b'', km_keys = ''ctrl+k'', km_handler = HString ''cmd:foo''\<rparr>],
      Run 1 0,
      Trigger ''keymap:emit'' [AString ''b'', AString ''ctrl+k'', AEvent 7],
      Trigger ''keymap:emit:b'' [AString ''b'', AString ''ctrl+k'', AEvent 7],
      Run 1 0,
      Trigger ''keymap:emit'' [AString ''b'', AString ''ctrl+k'', AEvent 8],
      Trigger ''keymap:emit:b'' [AString ''b'', AString ''ctrl+k'', AEvent 8]]"
  by (simp add: st0_unfold run_defs fire_defs)

end
